theory Spec2Isabelle
  imports Main
begin

section \<open>Shared data: platforms, messages, outbound calls\<close>

text \<open>
  \<^verbatim>\<open>AgentPlatform\<close> is a string enum (\<^verbatim>\<open>'anthropic' | 'openai' | 'llama'\<close>). The
  values that reach the Router at run time come from untyped event data and from
  the untyped body of the start request, so a platform is modelled as the string it is.
\<close>

type_synonym platform = string

definition ANTHROPIC :: platform where "ANTHROPIC = ''anthropic''"
definition OPENAI :: platform where "OPENAI = ''openai''"
definition LLAMA :: platform where "LLAMA = ''llama''"

text \<open>
  A chat message as the handlers read and write it. A field that may be
  \<^verbatim>\<open>undefined\<close> in the source is an option: the placeholder posted by an agent has
  no \<^verbatim>\<open>generating\<close> field until the first partial update sets one. \<open>user\<close> is
  \<^verbatim>\<open>message.user?.id\<close>.
\<close>

record message =
  "text" :: "string option"
  generating :: "bool option"
  ai_generated :: bool
  user :: "string option"
  parent_id :: "string option"

record event =
  message :: "message option"

datatype ai_state = AI_STATE_THINKING | AI_STATE_GENERATING | AI_STATE_ERROR

text \<open>
  Events sent with \<^verbatim>\<open>channel.sendEvent\<close>. The two custom events carry the channel
  cid and their payload; the indicator events all name the handler's own placeholder
  message, whose id is left out.
\<close>

datatype out_event =
    ai_indicator_update ai_state
  | ai_indicator_clear
  | custom_model_switched string platform
  | custom_model_switch_error string string

datatype agent = AnthropicAgent | OpenAIAgent | LlamaAgent

record context_message =
  role :: string
  content :: string

text \<open>
  Every call a component makes to the chat backend, to its provider or to a held
  agent is recorded, in program order, as one entry of a trace. The chat backend is
  opaque: its calls are taken to succeed. \<open>PartialUpdate t g\<close> is
  \<^verbatim>\<open>partialUpdateMessage(this.message.id, {set: ...})\<close> with the fields that the
  \<^verbatim>\<open>set\<close> object names.
\<close>

datatype effect =
    SendEvent out_event
  | SendMessage string bool
  | PartialUpdate "string option" "bool option"
  | Delay nat
  | AbortStream
  | AbortController
  | AgentHandleMessage agent event
  | StartLlamaStream "context_message list"
  | RunHandler

fun apply_effect :: "message \<Rightarrow> effect \<Rightarrow> message" where
  "apply_effect m (PartialUpdate t g) =
     m\<lparr>text := (case t of None \<Rightarrow> text m | Some x \<Rightarrow> Some x),
       generating := (case g of None \<Rightarrow> generating m | Some b \<Rightarrow> Some b)\<rparr>"
| "apply_effect m _ = m"

definition message_after :: "effect list \<Rightarrow> message \<Rightarrow> message" where
  "message_after effs m = foldl apply_effect m effs"

definition truthy :: "string option \<Rightarrow> bool" where
  "truthy v = (case v of None \<Rightarrow> False | Some s \<Rightarrow> s \<noteq> [])"

section \<open>The Router: MultiModelAgent\<close>

text \<open>
  \<^verbatim>\<open>agents\<close> is a JavaScript \<^verbatim>\<open>Map\<close>: it iterates in insertion order, and
  \<^verbatim>\<open>set\<close> on a key that is present replaces the value in place. It is modelled as
  an association list in iteration order.
\<close>

type_synonym agent_map = "(platform \<times> agent) list"

fun map_set :: "platform \<Rightarrow> agent \<Rightarrow> agent_map \<Rightarrow> agent_map" where
  "map_set k v [] = [(k, v)]"
| "map_set k v ((k', v') # es) =
     (if k' = k then (k, v) # es else (k', v') # map_set k v es)"

definition map_has :: "agent_map \<Rightarrow> platform \<Rightarrow> bool" where
  "map_has m k = (k \<in> set (map fst m))"

definition map_get :: "agent_map \<Rightarrow> platform \<Rightarrow> agent option" where
  "map_get m k = map_of m k"

record router =
  agents :: agent_map
  activeAgent :: platform
  lastInteractionTs :: nat
  cid :: string
  listening :: bool

definition new_MultiModelAgent :: "string \<Rightarrow> platform \<Rightarrow> nat \<Rightarrow> router" where
  "new_MultiModelAgent c initialPlatform now =
     \<lparr>agents = [], activeAgent = initialPlatform, lastInteractionTs = now,
      cid = c, listening = False\<rparr>"

subsection \<open>init\<close>

record env =
  ANTHROPIC_API_KEY :: "string option"
  OPENAI_API_KEY :: "string option"
  LLAMA_API_ENDPOINT :: "string option"
  LLAMA_MODEL_NAME :: "string option"

datatype error = Error string

definition or_default :: "string option \<Rightarrow> string \<Rightarrow> string" where
  "or_default v d = (if truthy v then the v else d)"

record llama_agent =
  apiEndpoint :: "string option"
  modelName :: "string option"
  agent_lastInteractionTs :: nat

definition LlamaAgent_init :: "env \<Rightarrow> llama_agent \<Rightarrow> error + llama_agent" where
  "LlamaAgent_init ev a =
     (let endpoint = or_default (LLAMA_API_ENDPOINT ev) ''http://localhost:11434'';
          model = or_default (LLAMA_MODEL_NAME ev) ''llama2''
      in if endpoint = [] then Inl (Error ''Llama API endpoint is required'')
         else Inr (a\<lparr>apiEndpoint := Some endpoint, modelName := Some model\<rparr>))"

text \<open>
  Modelled from the spec: \<^verbatim>\<open>AnthropicAgent.init\<close> and \<^verbatim>\<open>OpenAIAgent.init\<close> are not
  among the source files. The spec (4.3) says that \<^verbatim>\<open>init\<close> "fails fatally if required
  configuration is absent", and the availability endpoint names the required
  configuration: \<^verbatim>\<open>ANTHROPIC_API_KEY\<close> and \<^verbatim>\<open>OPENAI_API_KEY\<close>.
\<close>

definition AnthropicAgent_init :: "env \<Rightarrow> error option" where
  "AnthropicAgent_init ev =
     (if truthy (ANTHROPIC_API_KEY ev) then None
      else Some (Error ''Anthropic API key is required''))"

definition OpenAIAgent_init :: "env \<Rightarrow> error option" where
  "OpenAIAgent_init ev =
     (if truthy (OPENAI_API_KEY ev) then None
      else Some (Error ''OpenAI API key is required''))"

fun agent_init :: "env \<Rightarrow> agent \<Rightarrow> error option" where
  "agent_init ev AnthropicAgent = AnthropicAgent_init ev"
| "agent_init ev OpenAIAgent = OpenAIAgent_init ev"
| "agent_init ev LlamaAgent =
     (case LlamaAgent_init ev \<lparr>apiEndpoint = None, modelName = None, agent_lastInteractionTs = 0\<rparr>
      of Inl e \<Rightarrow> Some e | Inr _ \<Rightarrow> None)"

text \<open>
  \<^verbatim>\<open>Promise.all\<close> rejects as soon as one of its promises rejects; the model reports
  the first rejection in the order of the array.
\<close>

fun promise_all :: "error option list \<Rightarrow> error option" where
  "promise_all [] = None"
| "promise_all (None # rs) = promise_all rs"
| "promise_all (Some e # rs) = Some e"

text \<open>
  \<^verbatim>\<open>init\<close> returns the Router as it stands when the call ends, and the error it
  threw, if any: the three \<^verbatim>\<open>agents.set\<close> calls come before the \<^verbatim>\<open>await\<close> and are
  kept when it throws, the listeners after it are registered only when it does not.
  \<open>inits\<close> gives the outcome of \<^verbatim>\<open>agent.init()\<close> for each held agent.
\<close>

definition MultiModelAgent_init :: "(agent \<Rightarrow> error option) \<Rightarrow> router \<Rightarrow> router \<times> error option" where
  "MultiModelAgent_init inits r =
     (let r1 = r\<lparr>agents := map_set LLAMA LlamaAgent
                    (map_set OPENAI OpenAIAgent
                      (map_set ANTHROPIC AnthropicAgent (agents r)))\<rparr>
      in case promise_all (map inits (map snd (agents r1))) of
           Some e \<Rightarrow> (r1, Some e)
         | None \<Rightarrow> (r1\<lparr>listening := True\<rparr>, None))"

definition getAvailableModels :: "router \<Rightarrow> platform list" where
  "getAvailableModels r = map fst (agents r)"

definition getActiveModel :: "router \<Rightarrow> platform" where
  "getActiveModel r = activeAgent r"

subsection \<open>Explicit switch\<close>

text \<open>
  The argument is \<^verbatim>\<open>e.data?.platform\<close>: \<open>None\<close> when the event carries none.
\<close>

definition handleModelSwitch :: "router \<Rightarrow> platform option \<Rightarrow> router \<times> effect list" where
  "handleModelSwitch r p =
     (if \<not> truthy p then (r, [])
      else let platform = the p in
        if \<not> map_has (agents r) platform then
          (r, [SendEvent (custom_model_switch_error (cid r)
                 (''AI model '' @ platform @ '' is not available''))])
        else case map_get (agents r) platform of
            None \<Rightarrow>
              (r, [SendEvent (custom_model_switch_error (cid r)
                     (''Agent not initialized for platform: '' @ platform))])
          | Some a \<Rightarrow>
              (r\<lparr>activeAgent := platform\<rparr>,
               [SendEvent (custom_model_switched (cid r) platform)]))"

subsection \<open>Automatic fallback\<close>

definition all_unavailable :: string where
  "all_unavailable =
     ''I'' @ [CHR 0x27] @ ''m sorry, but all AI models are currently unavailable. Please try again later.''"

text \<open>
  The loop of \<^verbatim>\<open>handleModelSwitchError\<close> over \<^verbatim>\<open>this.agents.entries()\<close>: the first
  entry whose key differs from the active platform. Agents are objects, so the
  \<^verbatim>\<open>&& agent\<close> test of the source holds for every entry.
\<close>

fun fallback_other :: "platform \<Rightarrow> agent_map \<Rightarrow> platform option" where
  "fallback_other current [] = None"
| "fallback_other current ((p, a) # es) =
     (if p \<noteq> current then Some p else fallback_other current es)"

text \<open>The argument is \<^verbatim>\<open>e.data?.error\<close>.\<close>

definition handleModelSwitchError :: "router \<Rightarrow> string option \<Rightarrow> router \<times> effect list" where
  "handleModelSwitchError r err =
     (if \<not> truthy err then (r, [])
      else case fallback_other (activeAgent r) (agents r) of
          Some p \<Rightarrow>
            (r\<lparr>activeAgent := p\<rparr>, [SendEvent (custom_model_switched (cid r) p)])
        | None \<Rightarrow> (r, [SendMessage all_unavailable True]))"

text \<open>
  Every agent class has a \<^verbatim>\<open>handleMessage\<close> method, so the \<^verbatim>\<open>typeof\<close> test of
  the source holds; \<open>AgentHandleMessage a e\<close> is the call of it.
\<close>

definition processMessageWithAgent :: "agent \<Rightarrow> event \<Rightarrow> effect list" where
  "processMessageWithAgent a e =
     (case message e of
        None \<Rightarrow> []
      | Some m \<Rightarrow>
          if ai_generated m then []
          else if \<not> truthy (text m) then []
          else [AgentHandleMessage a e])"

text \<open>
  The loop of \<^verbatim>\<open>handleMessage\<close> over the entries, taken when the active agent is
  absent: the first entry.
\<close>

fun fallback_first :: "agent_map \<Rightarrow> (platform \<times> agent) option" where
  "fallback_first [] = None"
| "fallback_first ((p, a) # es) = Some (p, a)"

definition handleMessage :: "router \<Rightarrow> nat \<Rightarrow> event \<Rightarrow> router \<times> effect list" where
  "handleMessage r now e =
     (let r1 = r\<lparr>lastInteractionTs := now\<rparr> in
      case map_get (agents r1) (activeAgent r1) of
        None \<Rightarrow>
          (case fallback_first (agents r1) of
             Some (p, fallbackAgent) \<Rightarrow>
               (r1\<lparr>activeAgent := p\<rparr>, processMessageWithAgent fallbackAgent e)
           | None \<Rightarrow> (r1, [SendMessage all_unavailable True]))
      | Some a \<Rightarrow> (r1, processMessageWithAgent a e))"

section \<open>The Relay: response handlers\<close>

text \<open>
  Both handlers keep the text accumulated so far and a count of the fragments
  that contributed to it.
\<close>

record response_handler =
  message_text :: string
  chunk_counter :: nat

definition new_handler :: response_handler where
  "new_handler = \<lparr>message_text = [], chunk_counter = 0\<rparr>"

text \<open>
  A provider stream is a finite sequence of items that either ends or throws after
  its last item. Of a thrown value the handlers read \<^verbatim>\<open>error?.error?.type\<close> only.
\<close>

datatype thrown = Thrown "string option"

fun error_type :: "thrown \<Rightarrow> string option" where
  "error_type (Thrown t) = t"

record 'a provider_stream =
  items :: "'a list"
  failure :: "thrown option"

subsection \<open>AnthropicResponseHandler\<close>

datatype delta = text_delta string | other_delta

datatype stream_event =
    content_block_start
  | content_block_delta delta
  | message_delta
  | message_stop
  | other_event

text \<open>
  The body of \<^verbatim>\<open>case 'message_stop'\<close>. The \<^verbatim>\<open>case 'message_delta'\<close> above it has
  no \<^verbatim>\<open>break\<close>, so its own commit is followed by this body.
\<close>

definition message_stop_case :: "response_handler \<Rightarrow> effect list" where
  "message_stop_case h =
     [Delay 500,
      PartialUpdate (Some (message_text h)) (Some False),
      SendEvent ai_indicator_clear]"

fun handle :: "response_handler \<Rightarrow> stream_event \<Rightarrow> response_handler \<times> effect list" where
  "handle h content_block_start =
     (h, [SendEvent (ai_indicator_update AI_STATE_GENERATING)])"
| "handle h (content_block_delta other_delta) = (h, [])"
| "handle h (content_block_delta (text_delta t)) =
     (let h' = h\<lparr>message_text := message_text h @ t,
                  chunk_counter := chunk_counter h + 1\<rparr>
      in (h', if chunk_counter h' mod 20 = 0 \<or>
                 (chunk_counter h' < 8 \<and> chunk_counter h' mod 2 \<noteq> 0)
              then [PartialUpdate (Some (message_text h')) (Some True)]
              else []))"
| "handle h message_delta =
     (h, PartialUpdate (Some (message_text h)) (Some False) # message_stop_case h)"
| "handle h message_stop = (h, message_stop_case h)"
| "handle h other_event = (h, [])"

fun handle_all :: "response_handler \<Rightarrow> stream_event list \<Rightarrow> response_handler \<times> effect list" where
  "handle_all h [] = (h, [])"
| "handle_all h (ev # evs) =
     (let (h1, effs1) = handle h ev; (h2, effs2) = handle_all h1 evs
      in (h2, effs1 @ effs2))"

definition overloaded_notice :: string where
  "overloaded_notice = ''Model is currently overloaded, falling back to another model''"

text \<open>The \<^verbatim>\<open>catch\<close> block of \<^verbatim>\<open>run\<close>; \<open>c\<close> is \<^verbatim>\<open>this.channel.cid\<close>.\<close>

definition anthropic_catch :: "string \<Rightarrow> thrown \<Rightarrow> effect list" where
  "anthropic_catch c err =
     (if error_type err = Some ''overloaded_error''
      then [SendEvent (custom_model_switch_error c overloaded_notice)]
      else [SendEvent (ai_indicator_update AI_STATE_ERROR)])"

definition AnthropicResponseHandler_run ::
  "string \<Rightarrow> response_handler \<Rightarrow> stream_event provider_stream \<Rightarrow> response_handler \<times> effect list" where
  "AnthropicResponseHandler_run c h s =
     (let (h', effs) = handle_all h (items s)
      in case failure s of
           None \<Rightarrow> (h', effs)
         | Some err \<Rightarrow> (h', effs @ anthropic_catch c err))"

text \<open>
  The first argument says whether \<^verbatim>\<open>this.anthropicStream\<close> is set, which is what
  the guard of the source tests.
\<close>

definition AnthropicResponseHandler_handleStopGenerating :: "bool \<Rightarrow> response_handler \<Rightarrow> effect list" where
  "AnthropicResponseHandler_handleStopGenerating anthropicStream h =
     (if \<not> anthropicStream then []
      else [AbortStream, PartialUpdate None (Some False), SendEvent ai_indicator_clear])"

subsection \<open>LlamaResponseHandler\<close>

text \<open>
  The items of a Llama stream are the raw chunks already mapped through
  \<^verbatim>\<open>parseChunk\<close>, which returns a string and never throws.
\<close>

definition interrupted_notice :: string where
  "interrupted_notice = [CHR 0x0A, CHR 0x0A] @ ''[Message generation was interrupted]''"

definition generation_error_text :: string where
  "generation_error_text =
     ''I'' @ [CHR 0x27] @ ''m sorry, but there was an error generating a response.''"

fun llama_chunk :: "response_handler \<Rightarrow> string \<Rightarrow> response_handler \<times> effect list" where
  "llama_chunk h chunkText =
     (if chunkText \<noteq> [] then
        (let h' = h\<lparr>message_text := message_text h @ chunkText,
                     chunk_counter := chunk_counter h + 1\<rparr>
         in (h', if chunk_counter h' mod 15 = 0 \<or>
                    (chunk_counter h' < 8 \<and> chunk_counter h' mod 3 = 0)
                 then [PartialUpdate (Some (message_text h')) (Some True)]
                 else []))
      else (h, []))"

fun llama_chunks :: "response_handler \<Rightarrow> string list \<Rightarrow> response_handler \<times> effect list" where
  "llama_chunks h [] = (h, [])"
| "llama_chunks h (c # cs) =
     (let (h1, effs1) = llama_chunk h c; (h2, effs2) = llama_chunks h1 cs
      in (h2, effs1 @ effs2))"

definition llama_catch :: "response_handler \<Rightarrow> effect list" where
  "llama_catch h =
     [SendEvent (ai_indicator_update AI_STATE_ERROR),
      (if message_text h \<noteq> []
       then PartialUpdate (Some (message_text h @ interrupted_notice)) (Some False)
       else PartialUpdate (Some generation_error_text) (Some False))]"

definition LlamaResponseHandler_run ::
  "response_handler \<Rightarrow> string provider_stream \<Rightarrow> response_handler \<times> effect list" where
  "LlamaResponseHandler_run h s =
     (let (h', effs) = llama_chunks h (items s)
      in case failure s of
           None \<Rightarrow>
             (h', effs @ [PartialUpdate (Some (message_text h')) (Some False),
                          SendEvent ai_indicator_clear])
         | Some err \<Rightarrow> (h', effs @ llama_catch h'))"

text \<open>
  \<^verbatim>\<open>this.controller\<close> is an \<^verbatim>\<open>AbortController\<close> of the handler's own, created in a
  field initialiser and handed to nobody.
\<close>

definition LlamaResponseHandler_handleStopGenerating :: "response_handler \<Rightarrow> effect list" where
  "LlamaResponseHandler_handleStopGenerating h =
     [AbortController, PartialUpdate None (Some False), SendEvent ai_indicator_clear]"

subsection \<open>The placeholder message\<close>

text \<open>What \<^verbatim>\<open>channel.sendMessage({text: '', ai_generated: true})\<close> creates.\<close>

definition placeholder :: "string \<Rightarrow> message" where
  "placeholder bot_id =
     \<lparr>text = Some [], generating = None, ai_generated = True,
      user = Some bot_id, parent_id = None\<rparr>"

section \<open>The Agent: LlamaAgent.handleMessage\<close>

text \<open>
  \<^verbatim>\<open>String.prototype.trim\<close> removes the white space and line terminators of
  ECMAScript from both ends. A \<open>char\<close> of a message text stands for a UTF-16 code
  unit below 256, and of the code points that \<^verbatim>\<open>trim\<close> removes, seven are in that
  range: tab, line feed, vertical tab, form feed, carriage return, space and the
  no-break space U+00A0. A text with a code unit from 256 on cannot be written in
  the model.
\<close>

definition is_space :: "char \<Rightarrow> bool" where
  "is_space c =
     (c \<in> set [CHR 0x09, CHR 0x0A, CHR 0x0B, CHR 0x0C, CHR 0x0D, CHR 0x20, CHR 0xA0])"

definition trim :: "string \<Rightarrow> string" where
  "trim s = rev (dropWhile is_space (rev (dropWhile is_space s)))"

text \<open>\<^verbatim>\<open>xs.slice(-n)\<close>: the last \<open>n\<close> elements, all of them when there are fewer.\<close>

definition slice_last :: "nat \<Rightarrow> 'a list \<Rightarrow> 'a list" where
  "slice_last n xs = drop (length xs - n) xs"

definition startsWith :: "string \<Rightarrow> string \<Rightarrow> bool" where
  "startsWith s p = (take (length p) s = p)"

text \<open>The filter \<^verbatim>\<open>msg.text && msg.text.trim() !== ''\<close>.\<close>

definition has_text :: "message \<Rightarrow> bool" where
  "has_text msg = (truthy (text msg) \<and> trim (the (text msg)) \<noteq> [])"

definition is_bot :: "message \<Rightarrow> bool" where
  "is_bot msg = (case user msg of None \<Rightarrow> False | Some u \<Rightarrow> startsWith u ''ai-bot'')"

definition to_context :: "message \<Rightarrow> context_message" where
  "to_context msg =
     \<lparr>role = (if is_bot msg then ''assistant'' else ''user''),
      content = or_default (text msg) []\<rparr>"

definition request_error_text :: string where
  "request_error_text = ''Sorry, I encountered an error while processing your request.''"

text \<open>
  \<open>chan\<close> is \<^verbatim>\<open>this.channel.state.messages\<close> when the event is handled, \<open>now\<close> is
  \<^verbatim>\<open>Date.now()\<close>, and \<open>stream_ok\<close> says whether \<^verbatim>\<open>startLlamaStream\<close> returned
  (otherwise it threw).
\<close>

definition LlamaAgent_handleMessage ::
  "llama_agent \<Rightarrow> message list \<Rightarrow> nat \<Rightarrow> bool \<Rightarrow> event \<Rightarrow> llama_agent \<times> effect list" where
  "LlamaAgent_handleMessage a chan now stream_ok e =
     (if \<not> truthy (apiEndpoint a) \<or> \<not> truthy (modelName a) then (a, [])
      else case message e of
          None \<Rightarrow> (a, [])
        | Some m \<Rightarrow>
            if ai_generated m then (a, [])
            else if \<not> truthy (text m) then (a, [])
            else
              let msg = the (text m);
                  a' = a\<lparr>agent_lastInteractionTs := now\<rparr>;
                  messages = map to_context (filter has_text (slice_last 5 chan));
                  messages' = (if parent_id m \<noteq> None
                               then messages @ [\<lparr>role = ''user'', content = msg\<rparr>]
                               else messages)
              in (a', [SendMessage [] True,
                       SendEvent (ai_indicator_update AI_STATE_THINKING),
                       StartLlamaStream messages'] @
                      (if stream_ok then [RunHandler]
                       else [PartialUpdate (Some request_error_text) (Some False),
                             SendEvent ai_indicator_clear])))"

text \<open>
  The window as the specification words it, for comparison with the source: the most
  recent 5 conversation messages with non-empty text.
\<close>

definition spec_context_window :: "message list \<Rightarrow> message list" where
  "spec_context_window chan = slice_last 5 (filter (\<lambda>m. truthy (text m)) chan)"

section \<open>The agent registry: the control-plane endpoints\<close>

subsection \<open>Registry keys\<close>

text \<open>
  \<^verbatim>\<open>String.prototype.split\<close> with a separator of one character: the separator
  cuts the string at each of its occurrences, so the result is never empty.
\<close>

fun split_on :: "char \<Rightarrow> string \<Rightarrow> string list" where
  "split_on c [] = [[]]"
| "split_on c (x # xs) =
     (if x = c then [] # split_on c xs
      else (case split_on c xs of
              [] \<Rightarrow> [[x]]
            | p # ps \<Rightarrow> (x # p) # ps))"

text \<open>\<^verbatim>\<open>s.replace(/!/g, '')\<close>\<close>

definition strip_bang :: "string \<Rightarrow> string" where
  "strip_bang s = filter (\<lambda>c. c \<noteq> CHR ''!'') s"

text \<open>
  The start endpoint rewrites the channel id before it derives the key; the stop,
  switch-model and active-model endpoints all derive \<^verbatim>\<open>userId\<close> from the channel
  id as it came.
\<close>

definition channel_id_updated :: "string \<Rightarrow> string" where
  "channel_id_updated channel_id =
     (if CHR '':'' \<in> set channel_id then
        (let parts = split_on CHR '':'' channel_id
         in if length parts > 1 then parts ! 1 else channel_id)
      else channel_id)"

definition start_user_id :: "string \<Rightarrow> string" where
  "start_user_id channel_id = ''ai-bot-'' @ strip_bang (channel_id_updated channel_id)"

definition userId :: "string \<Rightarrow> string" where
  "userId channel_id = ''ai-bot-'' @ strip_bang channel_id"

subsection \<open>Requests as interleaved steps\<close>

text \<open>
  The server is single-threaded: a handler runs without interruption up to its next
  \<^verbatim>\<open>await\<close>, where other handlers may run. A start request \<open>t\<close> that takes the
  branch of line 70 adds its key to \<^verbatim>\<open>pendingAiAgents\<close> and is then in flight
  (\<open>InFlight\<close>): the awaits up to \<^verbatim>\<open>createAgent\<close> touch neither the cache nor the
  pending set. When \<^verbatim>\<open>createAgent\<close> has returned, the agent exists and is connected,
  and the handler awaits \<^verbatim>\<open>agent.init()\<close> (\<open>Initialising\<close>). The handler then
  installs its agent, or begins to dispose it when the cache holds one by now
  (\<open>Disposing\<close>), which is one more suspension. A suspension ends with success
  (\<open>Ok\<close>) or with an exception (\<open>Failed\<close>): a start that fails before
  \<^verbatim>\<open>createAgent\<close> returns has created nothing, a start that fails in
  \<^verbatim>\<open>agent.init()\<close> leaves its agent created and neither installed nor disposed.
  Every path through the \<^verbatim>\<open>try\<close> ends in the \<^verbatim>\<open>finally\<close> that deletes the key from
  the pending set, the path of a request that found the key pending included: it
  lifts the guard of the request still in flight, and the test of line 94 is what
  then keeps a later request from installing a second agent. An agent instance is
  named by the number of the request that created it; \<open>Done u c\<close> is a request for
  key \<open>u\<close> answered with status \<open>c\<close>.

  The stop endpoint and the idle sweep look an agent up, call
  \<^verbatim>\<open>disposeAiAgent\<close> and await it, and delete the key from the cache only when the
  disposal has ended: \<open>evicting\<close> holds the keys of the disposals under way.
\<close>

datatype phase =
    NotArrived
  | InFlight string
  | Initialising string
  | Disposing string
  | Done string nat
  | Rejected

datatype outcome = Ok | Failed

datatype request =
    Arrive nat string
  | AgentCreated nat
  | Resume nat outcome
  | StopReq string
  | Sweep string
  | ResumeEvict string outcome

record server =
  aiAgentCache :: "string \<rightharpoonup> nat"
  pendingAiAgents :: "string set"
  created :: "nat \<rightharpoonup> string"
  disposed :: "nat set"
  phase :: "nat \<Rightarrow> phase"
  evicting :: "string list"

definition init_server :: server where
  "init_server =
     \<lparr>aiAgentCache = Map.empty, pendingAiAgents = {}, created = Map.empty,
      disposed = {}, phase = (\<lambda>_. NotArrived), evicting = []\<rparr>"

text \<open>The response and the \<^verbatim>\<open>finally\<close> block of the start handler.\<close>

definition finish :: "server \<Rightarrow> nat \<Rightarrow> string \<Rightarrow> nat \<Rightarrow> server" where
  "finish s t user_id status =
     s\<lparr>pendingAiAgents := pendingAiAgents s - {user_id},
       phase := (phase s)(t := Done user_id status)\<rparr>"

text \<open>The start handler from its first line to its first \<^verbatim>\<open>await\<close>.\<close>

definition arrive :: "server \<Rightarrow> nat \<Rightarrow> string \<Rightarrow> server" where
  "arrive s t channel_id =
     (if channel_id = [] then s\<lparr>phase := (phase s)(t := Rejected)\<rparr>
      else let user_id = start_user_id channel_id in
        if aiAgentCache s user_id = None \<and> user_id \<notin> pendingAiAgents s
        then s\<lparr>pendingAiAgents := insert user_id (pendingAiAgents s),
               phase := (phase s)(t := InFlight user_id)\<rparr>
        else finish s t user_id 200)"

text \<open>\<^verbatim>\<open>createAgent\<close> has returned: the handler goes on to await \<^verbatim>\<open>agent.init()\<close>.\<close>

definition agent_created :: "server \<Rightarrow> nat \<Rightarrow> string \<Rightarrow> server" where
  "agent_created s t user_id =
     s\<lparr>created := (created s)(t \<mapsto> user_id),
       phase := (phase s)(t := Initialising user_id)\<rparr>"

text \<open>The end of \<^verbatim>\<open>agent.init()\<close>: lines 94 to 98, or the \<^verbatim>\<open>catch\<close> block.\<close>

definition resume_initialising :: "server \<Rightarrow> nat \<Rightarrow> string \<Rightarrow> outcome \<Rightarrow> server" where
  "resume_initialising s t user_id r =
     (case r of
        Failed \<Rightarrow> finish s t user_id 500
      | Ok \<Rightarrow>
          if aiAgentCache s user_id \<noteq> None
          then s\<lparr>disposed := insert t (disposed s),
                 phase := (phase s)(t := Disposing user_id)\<rparr>
          else finish (s\<lparr>aiAgentCache := (aiAgentCache s)(user_id \<mapsto> t)\<rparr>) t user_id 200)"

text \<open>
  A request in flight that is resumed with \<open>Ok\<close> has its agent created and
  initialised with no other handler running in between; resumed with \<open>Failed\<close>, it
  failed before \<^verbatim>\<open>createAgent\<close> returned.
\<close>

definition resume_in_flight :: "server \<Rightarrow> nat \<Rightarrow> string \<Rightarrow> outcome \<Rightarrow> server" where
  "resume_in_flight s t user_id r =
     (case r of
        Failed \<Rightarrow> finish s t user_id 500
      | Ok \<Rightarrow> resume_initialising (agent_created s t user_id) t user_id Ok)"

text \<open>
  The stop endpoint and the idle sweep up to their \<^verbatim>\<open>await\<close>: when the cache
  holds an agent under the key, its disposal is called.
\<close>

definition evict :: "server \<Rightarrow> string \<Rightarrow> server" where
  "evict s key =
     (case aiAgentCache s key of
        None \<Rightarrow> s
      | Some aiAgent \<Rightarrow>
          s\<lparr>disposed := insert aiAgent (disposed s), evicting := key # evicting s\<rparr>)"

definition stop_ai_agent :: "server \<Rightarrow> string \<Rightarrow> server" where
  "stop_ai_agent s channel_id = evict s (userId channel_id)"

text \<open>
  The end of a disposal awaited by a stop or by the sweep: the key is deleted from
  the cache, whatever the cache holds under it by now; when the disposal threw, the
  delete is not reached.
\<close>

definition resume_evict :: "server \<Rightarrow> string \<Rightarrow> outcome \<Rightarrow> server" where
  "resume_evict s key r =
     (if key \<in> set (evicting s) then
        (let s1 = s\<lparr>evicting := remove1 key (evicting s)\<rparr>
         in case r of
              Ok \<Rightarrow> s1\<lparr>aiAgentCache := (aiAgentCache s1)(key := None)\<rparr>
            | Failed \<Rightarrow> s1)
      else s)"

text \<open>
  One step of the server. \<open>Sweep key\<close> is the idle sweep reaching an entry it
  finds idle; a request that is not in the phase a step is for is left alone.
\<close>

fun step :: "server \<Rightarrow> request \<Rightarrow> server" where
  "step s (Arrive t channel_id) =
     (case phase s t of NotArrived \<Rightarrow> arrive s t channel_id | _ \<Rightarrow> s)"
| "step s (AgentCreated t) =
     (case phase s t of InFlight user_id \<Rightarrow> agent_created s t user_id | _ \<Rightarrow> s)"
| "step s (Resume t r) =
     (case phase s t of
        InFlight user_id \<Rightarrow> resume_in_flight s t user_id r
      | Initialising user_id \<Rightarrow> resume_initialising s t user_id r
      | Disposing user_id \<Rightarrow>
          finish s t user_id (case r of Ok \<Rightarrow> 200 | Failed \<Rightarrow> 500)
      | _ \<Rightarrow> s)"
| "step s (StopReq channel_id) = stop_ai_agent s channel_id"
| "step s (Sweep key) = evict s key"
| "step s (ResumeEvict key r) = resume_evict s key r"

definition run :: "request list \<Rightarrow> server \<Rightarrow> server" where
  "run rs s = foldl step s rs"





text \<open>The status with which the switch-model and active-model endpoints answer.\<close>

definition switch_model :: "server \<Rightarrow> bool \<Rightarrow> string \<Rightarrow> string \<Rightarrow> nat" where
  "switch_model s multi channel_id platform =
     (if channel_id = [] \<or> platform = [] then 400
      else case aiAgentCache s (userId channel_id) of
          None \<Rightarrow> 404
        | Some aiAgent \<Rightarrow> if multi then 200 else 400)"

definition active_model :: "server \<Rightarrow> string \<Rightarrow> nat" where
  "active_model s channel_id =
     (if channel_id = [] then 400
      else case aiAgentCache s (userId channel_id) of
          None \<Rightarrow> 404
        | Some aiAgent \<Rightarrow> 200)"

subsection \<open>Invariants of the registry\<close>




definition inv_keys :: "server \<Rightarrow> bool" where
  "inv_keys s \<longleftrightarrow>
     (\<forall>k. aiAgentCache s k \<noteq> None \<longrightarrow> CHR '':'' \<notin> set k) \<and>
     (\<forall>t k. phase s t = InFlight k \<or> phase s t = Initialising k \<longrightarrow> CHR '':'' \<notin> set k)"

section \<open>Concrete inputs\<close>

definition demo_env :: env where
  "demo_env =
     \<lparr>ANTHROPIC_API_KEY = Some ''sk-ant'', OPENAI_API_KEY = Some ''sk-oai'',
      LLAMA_API_ENDPOINT = None, LLAMA_MODEL_NAME = None\<rparr>"

definition demo_router :: "platform \<Rightarrow> router" where
  "demo_router initialPlatform =
     fst (MultiModelAgent_init (agent_init demo_env)
            (new_MultiModelAgent ''messaging:demo-channel'' initialPlatform 0))"

definition user_message :: "string \<Rightarrow> string \<Rightarrow> message" where
  "user_message u t =
     \<lparr>text = Some t, generating = None, ai_generated = False,
      user = Some u, parent_id = None\<rparr>"

definition demo_chan :: "message list" where
  "demo_chan =
     [user_message ''alice'' ''a'', user_message ''ai-bot-demo-channel'' ''b'',
      user_message ''alice'' ''c'', user_message ''ai-bot-demo-channel'' ''d'',
      user_message ''alice'' [], user_message ''alice'' ''hello'']"

text \<open>A text of a space, a no-break space and a tab.\<close>

definition blank :: string where
  "blank = [CHR 0x20, CHR 0xA0, CHR 0x09]"

definition demo_chan_blank :: "message list" where
  "demo_chan_blank = [user_message ''alice'' blank, user_message ''alice'' ''hello'']"

definition demo_chan_mixed :: "message list" where
  "demo_chan_mixed =
     [user_message ''alice'' ''a'', user_message ''ai-bot-demo-channel'' ''b'',
      user_message ''alice'' blank, user_message ''ai-bot-demo-channel'' ''d'',
      user_message ''alice'' [], user_message ''alice'' ''hello'']"

definition hello :: event where
  "hello = \<lparr>message = Some (user_message ''alice'' ''hello'')\<rparr>"

definition overloaded_stream :: "stream_event provider_stream" where
  "overloaded_stream =
     \<lparr>items = [content_block_start, content_block_delta (text_delta ''Hi'')],
      failure = Some (Thrown (Some ''overloaded_error''))\<rparr>"

definition broken_stream :: "stream_event provider_stream" where
  "broken_stream =
     \<lparr>items = [content_block_start, content_block_delta (text_delta ''Hi'')],
      failure = Some (Thrown None)\<rparr>"

definition demo_llama_agent :: llama_agent where
  "demo_llama_agent =
     \<lparr>apiEndpoint = Some ''http://localhost:11434'', modelName = Some ''llama2'',
      agent_lastInteractionTs = 0\<rparr>"



definition overlapping_stops :: "request list" where
  "overlapping_stops =
     [Arrive 0 ''demo-channel'', Resume 0 Ok,
      StopReq ''demo-channel'', StopReq ''demo-channel'',
      ResumeEvict ''ai-bot-demo-channel'' Ok,
      Arrive 1 ''demo-channel'', Resume 1 Ok,
      ResumeEvict ''ai-bot-demo-channel'' Ok,
      Arrive 2 ''demo-channel'', Resume 2 Ok]"

section \<open>Properties of the Router\<close>

lemma map_has_iff_get: "map_has m k \<longleftrightarrow> map_get m k \<noteq> None"
  by (induction m) (auto simp: map_has_def map_get_def)

lemma fallback_other_Some:
  "fallback_other c m = Some p \<Longrightarrow> p \<noteq> c \<and> map_has m p"
  by (induction m) (auto simp: map_has_def split: if_splits)

lemma fallback_other_None:
  "fallback_other c m = None \<longleftrightarrow> (\<forall>p \<in> set (map fst m). p = c)"
  by (induction m) (auto split: if_splits)

lemma fallback_other_first:
  "fallback_other c m = Some p \<Longrightarrow>
   \<exists>pre a post. m = pre @ (p, a) # post \<and> (\<forall>q \<in> set (map fst pre). q = c)"
proof (induction m)
  case Nil
  then show ?case by simp
next
  case (Cons x m)
  obtain q b where x: "x = (q, b)" by (cases x)
  show ?case
  proof (cases "q = c")
    case True
    with Cons x obtain pre a post where
      "m = pre @ (p, a) # post" "\<forall>q \<in> set (map fst pre). q = c"
      by auto
    with True x have "x # m = ((q, b) # pre) @ (p, a) # post \<and>
        (\<forall>q' \<in> set (map fst ((q, b) # pre)). q' = c)"
      by simp
    then show ?thesis by blast
  next
    case False
    with Cons.prems x have "p = q" by simp
    with x have "x # m = [] @ (p, b) # m \<and> (\<forall>q' \<in> set (map fst []). q' = c)"
      by simp
    then show ?thesis by blast
  qed
qed

text \<open>
  C1. An explicit switch request that names a provider (a non-empty platform string):
  when the provider has no agent in the Router's map, the Router is left as it was,
  the active selector included, and the one thing sent is a switch-error event whose
  text names that provider; when the provider is in the map, the active selector
  becomes that provider, nothing else of the Router changes, and the one thing sent
  is the switch-confirmed event for it.
\<close>

theorem handleModelSwitch_explicit:
  assumes "platform \<noteq> []"
  shows "(\<not> map_has (agents r) platform \<longrightarrow>
            handleModelSwitch r (Some platform) =
              (r, [SendEvent (custom_model_switch_error (cid r)
                     (''AI model '' @ platform @ '' is not available''))])) \<and>
         (map_has (agents r) platform \<longrightarrow>
            handleModelSwitch r (Some platform) =
              (r\<lparr>activeAgent := platform\<rparr>,
               [SendEvent (custom_model_switched (cid r) platform)]))"
  using assms
  by (auto simp: handleModelSwitch_def truthy_def map_has_iff_get)

text \<open>
  The explicit switch at work on the Router of the demo channel: \<open>llama\<close> is in the
  map, \<open>gemini\<close> is not.
\<close>

lemma demo_router_eq:
  "demo_router p =
     \<lparr>agents = [(''anthropic'', AnthropicAgent), (''openai'', OpenAIAgent), (''llama'', LlamaAgent)],
      activeAgent = p, lastInteractionTs = 0, cid = ''messaging:demo-channel'',
      listening = True\<rparr>"
  by (simp add: demo_router_def MultiModelAgent_init_def demo_env_def new_MultiModelAgent_def
      ANTHROPIC_def OPENAI_def LLAMA_def AnthropicAgent_init_def OpenAIAgent_init_def
      LlamaAgent_init_def or_default_def truthy_def)

theorem handleModelSwitch_explicit_witness:
  "''llama'' \<noteq> [] \<and> ''gemini'' \<noteq> [] \<and>
   map_has (agents (demo_router ''anthropic'')) ''llama'' \<and>
   handleModelSwitch (demo_router ''anthropic'') (Some ''llama'') =
     ((demo_router ''anthropic'')\<lparr>activeAgent := ''llama''\<rparr>,
      [SendEvent (custom_model_switched ''messaging:demo-channel'' ''llama'')]) \<and>
   \<not> map_has (agents (demo_router ''anthropic'')) ''gemini'' \<and>
   handleModelSwitch (demo_router ''anthropic'') (Some ''gemini'') =
     (demo_router ''anthropic'',
      [SendEvent (custom_model_switch_error ''messaging:demo-channel''
         ''AI model gemini is not available'')])"
  using handleModelSwitch_explicit [of "''llama''" "demo_router ''anthropic''"]
        handleModelSwitch_explicit [of "''gemini''" "demo_router ''anthropic''"]
  by (simp add: demo_router_eq map_has_def)

text \<open>
  The Router listens for the very event type it sends when it refuses a switch.
  Should the chat backend deliver that event to the Router's own listener, as it
  delivers the Relay's overload signal, \<^verbatim>\<open>handleModelSwitchError\<close> runs next and
  the selector does move: from \<open>anthropic\<close> to \<open>openai\<close> on the demo channel.
\<close>

lemma refused_switch_then_own_error_event:
  "handleModelSwitch (demo_router ''anthropic'') (Some ''gemini'') =
     (demo_router ''anthropic'',
      [SendEvent (custom_model_switch_error ''messaging:demo-channel''
         ''AI model gemini is not available'')]) \<and>
   handleModelSwitchError (demo_router ''anthropic'') (Some ''AI model gemini is not available'') =
     ((demo_router ''anthropic'')\<lparr>activeAgent := ''openai''\<rparr>,
      [SendEvent (custom_model_switched ''messaging:demo-channel'' ''openai'')])"
  by (simp add: demo_router_eq handleModelSwitch_def handleModelSwitchError_def truthy_def
      map_has_def)

subsection \<open>Automatic fallback\<close>

text \<open>
  On a switch-error event the scan runs over the map in its iteration order and
  takes the first provider that is not the active one: everything before it in the
  map is the active provider. The selector is updated to it and switch-confirmed is
  sent; when the map holds no other provider the Router is unchanged and the
  apology is posted.
\<close>

lemma handleModelSwitchError_fallback:
  assumes "truthy err"
  shows "(\<forall>p. fallback_other (activeAgent r) (agents r) = Some p \<longrightarrow>
            handleModelSwitchError r err =
              (r\<lparr>activeAgent := p\<rparr>, [SendEvent (custom_model_switched (cid r) p)]) \<and>
            p \<noteq> activeAgent r \<and> map_has (agents r) p \<and>
            (\<exists>pre a post. agents r = pre @ (p, a) # post \<and>
               (\<forall>q \<in> set (map fst pre). q = activeAgent r))) \<and>
         (fallback_other (activeAgent r) (agents r) = None \<longrightarrow>
            handleModelSwitchError r err = (r, [SendMessage all_unavailable True]))"
  using assms fallback_other_Some [of "activeAgent r" "agents r"]
    fallback_other_first [of "activeAgent r" "agents r"]
  by (simp add: handleModelSwitchError_def)

text \<open>
  On an inbound turn whose active agent is absent from the map, the first provider
  of the map becomes the active one (it differs from the absent one) and the turn is
  handed to its agent; with an empty map the apology is posted. Nothing but the
  delegation is sent: no event at all.
\<close>

lemma processMessageWithAgent_sends_no_event:
  "SendEvent ev \<notin> set (processMessageWithAgent a e)"
  by (simp add: processMessageWithAgent_def split: option.splits)

lemma handleMessage_absent:
  assumes "map_get (agents r) (activeAgent r) = None"
  shows "(\<forall>p a rest. agents r = (p, a) # rest \<longrightarrow>
            handleMessage r now e =
              (r\<lparr>lastInteractionTs := now, activeAgent := p\<rparr>, processMessageWithAgent a e) \<and>
            p \<noteq> activeAgent r) \<and>
         (agents r = [] \<longrightarrow>
            handleMessage r now e =
              (r\<lparr>lastInteractionTs := now\<rparr>, [SendMessage all_unavailable True])) \<and>
         SendEvent ev \<notin> set (snd (handleMessage r now e))"
proof -
  have "\<forall>p a rest. agents r = (p, a) # rest \<longrightarrow> p \<noteq> activeAgent r"
    using assms by (auto simp: map_get_def)
  moreover have "SendEvent ev \<notin> set (snd (handleMessage r now e))"
    using assms processMessageWithAgent_sends_no_event [of ev _ e]
    by (cases "agents r") (auto simp: handleMessage_def all_unavailable_def)
  ultimately show ?thesis
    using assms by (auto simp: handleMessage_def)
qed

text \<open>
  C2. A Router started with an initial platform that is not one of its three
  providers (\<open>gemini\<close>, from the body of the start request) has no active agent. On
  the inbound turn \<open>hello\<close> it falls back to the first provider of its map, makes it
  the active one and hands it the turn, and sends no switch-confirmed event. On a
  switch-error event the same Router falls back to the same provider and does send
  switch-confirmed.
\<close>

theorem handleMessage_fallback_silent:
  "handleMessage (demo_router ''gemini'') 1 hello =
     ((demo_router ''gemini'')\<lparr>activeAgent := ''anthropic'', lastInteractionTs := 1\<rparr>,
      [AgentHandleMessage AnthropicAgent hello]) \<and>
   handleModelSwitchError (demo_router ''gemini'') (Some overloaded_notice) =
     ((demo_router ''gemini'')\<lparr>activeAgent := ''anthropic''\<rparr>,
      [SendEvent (custom_model_switched ''messaging:demo-channel'' ''anthropic'')])"
  by (simp add: demo_router_eq handleMessage_def handleModelSwitchError_def map_get_def
      processMessageWithAgent_def hello_def user_message_def truthy_def overloaded_notice_def)

subsection \<open>init\<close>

text \<open>
  Whatever the agents' \<^verbatim>\<open>init\<close> do, all three providers are in the map after
  \<^verbatim>\<open>init\<close>; and on a fresh Router, as soon as one of them fails, \<^verbatim>\<open>init\<close> throws
  and registers no listener.
\<close>

lemma MultiModelAgent_init_fresh:
  "getAvailableModels (fst (MultiModelAgent_init inits (new_MultiModelAgent c p now))) =
     [ANTHROPIC, OPENAI, LLAMA] \<and>
   (snd (MultiModelAgent_init inits (new_MultiModelAgent c p now)) = None \<longleftrightarrow>
      inits AnthropicAgent = None \<and> inits OpenAIAgent = None \<and> inits LlamaAgent = None) \<and>
   (listening (fst (MultiModelAgent_init inits (new_MultiModelAgent c p now))) \<longleftrightarrow>
      inits AnthropicAgent = None \<and> inits OpenAIAgent = None \<and> inits LlamaAgent = None)"
  by (cases "inits AnthropicAgent"; cases "inits OpenAIAgent"; cases "inits LlamaAgent")
     (simp_all add: MultiModelAgent_init_def new_MultiModelAgent_def getAvailableModels_def
       ANTHROPIC_def OPENAI_def LLAMA_def)

text \<open>The Llama agent has a default endpoint: its \<^verbatim>\<open>init\<close> cannot fail.\<close>

lemma LlamaAgent_init_total: "agent_init ev LlamaAgent = None"
  by (simp add: LlamaAgent_init_def or_default_def truthy_def split: option.splits)

text \<open>
  C7. With the Anthropic key missing and the OpenAI key present, \<^verbatim>\<open>init\<close> of the
  Router throws the Anthropic agent's error, registers no listener, and its map
  holds all three providers, the one that failed included.
\<close>

theorem init_missing_key_is_fatal:
  "MultiModelAgent_init (agent_init (demo_env\<lparr>ANTHROPIC_API_KEY := None\<rparr>))
     (new_MultiModelAgent ''messaging:demo-channel'' ''openai'' 0) =
     (\<lparr>agents = [(''anthropic'', AnthropicAgent), (''openai'', OpenAIAgent),
                 (''llama'', LlamaAgent)],
       activeAgent = ''openai'', lastInteractionTs = 0, cid = ''messaging:demo-channel'',
       listening = False\<rparr>,
      Some (Error ''Anthropic API key is required''))"
  by (simp add: MultiModelAgent_init_def demo_env_def new_MultiModelAgent_def
      ANTHROPIC_def OPENAI_def LLAMA_def AnthropicAgent_init_def OpenAIAgent_init_def
      LlamaAgent_init_def or_default_def truthy_def)

section \<open>Properties of the Relay\<close>

lemma message_after_append:
  "message_after (xs @ ys) m = message_after ys (message_after xs m)"
  by (simp add: message_after_def)

subsection \<open>Stop\<close>

text \<open>
  C3, as amended. For every point of a generation (any fragments \<open>chunks\<close>, or any
  stream events \<open>evs\<close>, handled so far, none included) a stop request makes the
  handler call its abort handle, set \<open>generating\<close> to false on the message without
  writing its text, and send indicator-cleared: the message is then as the commits
  so far left it, but for \<open>generating = false\<close>.
\<close>

theorem stop_clears_generating:
  "LlamaResponseHandler_handleStopGenerating (fst (llama_chunks h0 chunks)) =
     [AbortController, PartialUpdate None (Some False), SendEvent ai_indicator_clear] \<and>
   message_after
     (snd (llama_chunks h0 chunks) @
      LlamaResponseHandler_handleStopGenerating (fst (llama_chunks h0 chunks))) m =
     (message_after (snd (llama_chunks h0 chunks)) m)\<lparr>generating := Some False\<rparr> \<and>
   AnthropicResponseHandler_handleStopGenerating True (fst (handle_all h0 evs)) =
     [AbortStream, PartialUpdate None (Some False), SendEvent ai_indicator_clear] \<and>
   message_after
     (snd (handle_all h0 evs) @
      AnthropicResponseHandler_handleStopGenerating True (fst (handle_all h0 evs))) m =
     (message_after (snd (handle_all h0 evs)) m)\<lparr>generating := Some False\<rparr>"
  by (simp add: message_after_append LlamaResponseHandler_handleStopGenerating_def
      AnthropicResponseHandler_handleStopGenerating_def)
     (simp add: message_after_def)

theorem stop_clears_generating_witness:
  "message_after
     (snd (llama_chunks new_handler []) @
      LlamaResponseHandler_handleStopGenerating (fst (llama_chunks new_handler [])))
     (placeholder ''ai-bot-demo-channel'') =
     (placeholder ''ai-bot-demo-channel'')\<lparr>generating := Some False\<rparr> \<and>
   message_after
     (snd (handle_all new_handler [content_block_start, content_block_delta (text_delta ''a''),
             content_block_delta (text_delta ''b'')]) @
      AnthropicResponseHandler_handleStopGenerating True
        (fst (handle_all new_handler [content_block_start, content_block_delta (text_delta ''a''),
             content_block_delta (text_delta ''b'')])))
     (placeholder ''ai-bot-demo-channel'') =
     (placeholder ''ai-bot-demo-channel'')\<lparr>text := Some ''a'', generating := Some False\<rparr>"
  using stop_clears_generating [of new_handler "[]" "placeholder ''ai-bot-demo-channel''"
      "[content_block_start, content_block_delta (text_delta ''a''),
        content_block_delta (text_delta ''b'')]"]
  by (simp add: new_handler_def message_after_def placeholder_def)

text \<open>
  The claim as stated fails: after one fragment \<open>Hi\<close> the Llama handler has made no
  commit yet, and a stop leaves the message with the empty text of the placeholder,
  not with the accumulated \<open>Hi\<close>.
\<close>

theorem stop_commits_partial_text_counterexample:
  "message_text (fst (llama_chunks new_handler [''Hi''])) = ''Hi'' \<and>
   text (message_after
     (snd (llama_chunks new_handler [''Hi'']) @
      LlamaResponseHandler_handleStopGenerating (fst (llama_chunks new_handler [''Hi''])))
     (placeholder ''ai-bot-demo-channel'')) = Some []"
  by (simp add: new_handler_def message_after_def placeholder_def
      LlamaResponseHandler_handleStopGenerating_def)

subsection \<open>Overload\<close>

lemma handle_no_error_state:
  "SendEvent (ai_indicator_update AI_STATE_ERROR) \<notin> set (snd (handle h ev))"
  by (cases "(h, ev)" rule: handle.cases) (auto simp: Let_def message_stop_case_def)

lemma handle_all_no_error_state:
  "SendEvent (ai_indicator_update AI_STATE_ERROR) \<notin> set (snd (handle_all h evs))"
proof (induction evs arbitrary: h)
  case Nil
  then show ?case by simp
next
  case (Cons ev evs)
  obtain h1 e1 where h1: "handle h ev = (h1, e1)" by (cases "handle h ev")
  obtain h2 e2 where h2: "handle_all h1 evs = (h2, e2)" by (cases "handle_all h1 evs")
  from handle_no_error_state [of h ev] h1 Cons.IH [of h1] h2 show ?case by simp
qed

text \<open>
  C5. When the stream of the Anthropic handler ends by throwing an error whose type
  is \<open>overloaded_error\<close>, the handler sends, after what the stream's events made it
  send, the switch-error event with the overload notice and nothing else: the whole
  run sends no AI-error-state event, and it leaves the message as the events before
  the error left it, text and \<open>generating\<close> flag alike. Any other error makes the
  handler send the AI-error-state event instead, so the two can be told apart. (The
  Llama handler tells no overload apart: there the condition does not arise.)
\<close>

theorem overloaded_requests_switch:
  assumes "failure s = Some err" and "error_type err = Some ''overloaded_error''"
  shows "snd (AnthropicResponseHandler_run c h s) =
           snd (handle_all h (items s)) @
             [SendEvent (custom_model_switch_error c overloaded_notice)] \<and>
         SendEvent (ai_indicator_update AI_STATE_ERROR) \<notin>
           set (snd (AnthropicResponseHandler_run c h s)) \<and>
         message_after (snd (AnthropicResponseHandler_run c h s)) m =
           message_after (snd (handle_all h (items s))) m \<and>
         (\<forall>other. error_type other \<noteq> Some ''overloaded_error'' \<longrightarrow>
            anthropic_catch c other = [SendEvent (ai_indicator_update AI_STATE_ERROR)] \<and>
            anthropic_catch c other \<noteq> anthropic_catch c err)"
proof -
  obtain h' effs where r: "handle_all h (items s) = (h', effs)"
    by (cases "handle_all h (items s)")
  have run: "snd (AnthropicResponseHandler_run c h s) =
      effs @ [SendEvent (custom_model_switch_error c overloaded_notice)]"
    using assms r by (simp add: AnthropicResponseHandler_run_def anthropic_catch_def)
  have "SendEvent (ai_indicator_update AI_STATE_ERROR) \<notin> set effs"
    using handle_all_no_error_state [of h "items s"] r by simp
  then have "snd (AnthropicResponseHandler_run c h s) =
        snd (handle_all h (items s)) @
          [SendEvent (custom_model_switch_error c overloaded_notice)] \<and>
      SendEvent (ai_indicator_update AI_STATE_ERROR) \<notin>
        set (snd (AnthropicResponseHandler_run c h s)) \<and>
      message_after (snd (AnthropicResponseHandler_run c h s)) m =
        message_after (snd (handle_all h (items s))) m"
    using run r by (simp add: message_after_append) (simp add: message_after_def)
  moreover have "\<forall>other. error_type other \<noteq> Some ''overloaded_error'' \<longrightarrow>
      anthropic_catch c other = [SendEvent (ai_indicator_update AI_STATE_ERROR)] \<and>
      anthropic_catch c other \<noteq> anthropic_catch c err"
    using assms(2) by (simp add: anthropic_catch_def)
  ultimately show ?thesis by blast
qed

theorem overloaded_requests_switch_witness:
  "failure overloaded_stream = Some (Thrown (Some ''overloaded_error'')) \<and>
   error_type (Thrown (Some ''overloaded_error'')) = Some ''overloaded_error'' \<and>
   snd (AnthropicResponseHandler_run ''messaging:demo-channel'' new_handler overloaded_stream) =
     [SendEvent (ai_indicator_update AI_STATE_GENERATING),
      PartialUpdate (Some ''Hi'') (Some True),
      SendEvent (custom_model_switch_error ''messaging:demo-channel'' overloaded_notice)] \<and>
   message_after
     (snd (AnthropicResponseHandler_run ''messaging:demo-channel'' new_handler overloaded_stream))
     (placeholder ''ai-bot-demo-channel'') =
     (placeholder ''ai-bot-demo-channel'')\<lparr>text := Some ''Hi'', generating := Some True\<rparr>"
  using overloaded_requests_switch [of overloaded_stream "Thrown (Some ''overloaded_error'')"
      "''messaging:demo-channel''" new_handler "placeholder ''ai-bot-demo-channel''"]
  by (simp add: overloaded_stream_def new_handler_def message_after_def placeholder_def)

subsection \<open>Generic errors\<close>

text \<open>
  The Llama handler, whose stream throws: it sends the AI-error-state event and then
  commits with \<open>generating = false\<close>, the accumulated text with the interruption
  notice when there is any, the apology otherwise.
\<close>

lemma LlamaResponseHandler_run_error:
  assumes "failure s = Some err"
  shows "snd (LlamaResponseHandler_run h s) =
           snd (llama_chunks h (items s)) @
             [SendEvent (ai_indicator_update AI_STATE_ERROR),
              PartialUpdate
                (Some (if message_text (fst (llama_chunks h (items s))) \<noteq> []
                       then message_text (fst (llama_chunks h (items s))) @ interrupted_notice
                       else generation_error_text))
                (Some False)] \<and>
         generating (message_after (snd (LlamaResponseHandler_run h s)) m) = Some False"
  using assms
  by (simp add: LlamaResponseHandler_run_def llama_catch_def message_after_append
      split: prod.splits)
     (simp add: message_after_def)

text \<open>
  C4. The Anthropic handler on a stream that delivers one text fragment \<open>Hi\<close> and
  then throws an error that is not an overload: the fragment is committed with
  \<open>generating = true\<close>, the AI-error-state event is sent, and that is all. The message
  keeps the text \<open>Hi\<close>, with no notice, and \<open>generating = true\<close>.
\<close>

theorem anthropic_generic_error_leaves_generating:
  "snd (AnthropicResponseHandler_run ''messaging:demo-channel'' new_handler broken_stream) =
     [SendEvent (ai_indicator_update AI_STATE_GENERATING),
      PartialUpdate (Some ''Hi'') (Some True),
      SendEvent (ai_indicator_update AI_STATE_ERROR)] \<and>
   message_after
     (snd (AnthropicResponseHandler_run ''messaging:demo-channel'' new_handler broken_stream))
     (placeholder ''ai-bot-demo-channel'') =
     (placeholder ''ai-bot-demo-channel'')\<lparr>text := Some ''Hi'', generating := Some True\<rparr>"
  by (simp add: AnthropicResponseHandler_run_def broken_stream_def new_handler_def
      anthropic_catch_def message_after_def placeholder_def)

subsection \<open>The fall-through of message-delta\<close>

lemma handle_clear_count:
  "count_list (snd (handle h ev)) (SendEvent ai_indicator_clear) =
     (if ev = message_delta \<or> ev = message_stop then 1 else 0)"
  by (cases "(h, ev)" rule: handle.cases) (auto simp: Let_def message_stop_case_def)

lemma handle_all_clear_count:
  "count_list (snd (handle_all h evs)) (SendEvent ai_indicator_clear) =
     count_list evs message_delta + count_list evs message_stop"
proof (induction evs arbitrary: h)
  case Nil
  then show ?case by simp
next
  case (Cons ev evs)
  obtain h1 e1 where h1: "handle h ev = (h1, e1)" by (cases "handle h ev")
  obtain h2 e2 where h2: "handle_all h1 evs = (h2, e2)" by (cases "handle_all h1 evs")
  have "count_list e1 (SendEvent ai_indicator_clear) =
      (if ev = message_delta \<or> ev = message_stop then 1 else 0)"
    using handle_clear_count [of h ev] h1 by simp
  moreover have "count_list e2 (SendEvent ai_indicator_clear) =
      count_list evs message_delta + count_list evs message_stop"
    using Cons.IH [of h1] h2 by simp
  ultimately show ?case
    using h1 h2 by auto
qed

text \<open>
  C9. On a message-delta event the Anthropic handler commits the accumulated text
  with \<open>generating = false\<close> and goes on with everything it does on message-stop: the
  delay, the same commit again, and the indicator-clear event. So a run sends
  indicator-clear once for every message-delta and once for every message-stop event
  of its stream.
\<close>

theorem message_delta_falls_through:
  "handle h message_delta =
     (h, PartialUpdate (Some (message_text h)) (Some False) # snd (handle h message_stop)) \<and>
   snd (handle h message_stop) =
     [Delay 500, PartialUpdate (Some (message_text h)) (Some False),
      SendEvent ai_indicator_clear] \<and>
   count_list (snd (AnthropicResponseHandler_run c h0 s)) (SendEvent ai_indicator_clear) =
     count_list (items s) message_delta + count_list (items s) message_stop"
proof -
  obtain h' effs where r: "handle_all h0 (items s) = (h', effs)"
    by (cases "handle_all h0 (items s)")
  have "count_list effs (SendEvent ai_indicator_clear) =
      count_list (items s) message_delta + count_list (items s) message_stop"
    using handle_all_clear_count [of h0 "items s"] r by simp
  then have "count_list (snd (AnthropicResponseHandler_run c h0 s)) (SendEvent ai_indicator_clear) =
      count_list (items s) message_delta + count_list (items s) message_stop"
    using r by (simp add: AnthropicResponseHandler_run_def anthropic_catch_def
        split: option.splits)
  then show ?thesis by (simp add: message_stop_case_def)
qed

theorem message_delta_falls_through_witness:
  "snd (handle \<lparr>message_text = ''Hi'', chunk_counter = 1\<rparr> message_delta) =
     [PartialUpdate (Some ''Hi'') (Some False), Delay 500,
      PartialUpdate (Some ''Hi'') (Some False), SendEvent ai_indicator_clear] \<and>
   count_list
     (snd (AnthropicResponseHandler_run ''messaging:demo-channel'' new_handler
        \<lparr>items = [content_block_delta (text_delta ''Hi''), message_delta, message_stop],
         failure = None\<rparr>))
     (SendEvent ai_indicator_clear) = 2"
  using message_delta_falls_through [of "\<lparr>message_text = ''Hi'', chunk_counter = 1\<rparr>"
      "''messaging:demo-channel''" new_handler
      "\<lparr>items = [content_block_delta (text_delta ''Hi''), message_delta, message_stop],
        failure = None\<rparr>"]
  by simp

section \<open>Properties of the Agent\<close>

lemma length_slice_last: "length (slice_last n xs) \<le> n"
  by (simp add: slice_last_def)

text \<open>What is left of a text after \<^verbatim>\<open>trim\<close> is empty when the text is white space only.\<close>

lemma trim_empty_iff: "trim s = [] \<longleftrightarrow> (\<forall>c \<in> set s. is_space c)"
proof
  assume "trim s = []"
  then have a: "\<forall>c \<in> set (dropWhile is_space s). is_space c"
    by (simp add: trim_def dropWhile_eq_Nil_conv)
  have "dropWhile is_space s = []"
  proof (cases "dropWhile is_space s")
    case Nil
    then show ?thesis .
  next
    case (Cons x xs)
    then have "\<not> is_space x" by (metis hd_dropWhile list.sel(1) list.distinct(1))
    with a Cons show ?thesis by simp
  qed
  then show "\<forall>c \<in> set s. is_space c"
    by (simp add: dropWhile_eq_Nil_conv)
next
  assume "\<forall>c \<in> set s. is_space c"
  then have "dropWhile is_space s = []"
    by (simp add: dropWhile_eq_Nil_conv)
  then show "trim s = []"
    by (simp only: trim_def rev.simps dropWhile.simps)
qed

lemma has_text_iff:
  "has_text x \<longleftrightarrow> (\<exists>t. text x = Some t \<and> (\<exists>c \<in> set t. \<not> is_space c))"
proof (cases "text x")
  case None
  then show ?thesis by (simp add: has_text_def truthy_def)
next
  case (Some t)
  then show ?thesis
    using trim_empty_iff [of t] by (auto simp: has_text_def truthy_def)
qed

text \<open>
  C8, as amended. An initialised Llama agent ignores an event without a message, a
  message flagged \<open>ai_generated\<close> and a message with empty text: it posts no
  placeholder and calls no provider, and the Router delegates nothing. For any other
  message it posts the placeholder, sends the thinking signal and calls the provider
  with this context: of the 5 most recent messages of the conversation, those whose
  text is neither empty nor white space only, in order (at most 5, fewer when some of
  the 5 are dropped), each tagged \<open>assistant\<close> if and only if its author's id starts
  with \<open>ai-bot\<close> and \<open>user\<close> otherwise; followed by the inbound message, as \<open>user\<close>,
  exactly when it is a threaded reply. A message is kept if and only if its text has
  a character that is not white space.
\<close>

theorem handleMessage_context:
  assumes "truthy (apiEndpoint a)" and "truthy (modelName a)"
  shows "(message e = None \<longrightarrow> LlamaAgent_handleMessage a chan now ok e = (a, [])) \<and>
         (\<forall>m. message e = Some m \<and> (ai_generated m \<or> \<not> truthy (text m)) \<longrightarrow>
            LlamaAgent_handleMessage a chan now ok e = (a, []) \<and>
            processMessageWithAgent ag e = []) \<and>
         (\<forall>m. message e = Some m \<and> \<not> ai_generated m \<and> truthy (text m) \<longrightarrow>
            take 3 (snd (LlamaAgent_handleMessage a chan now ok e)) =
              [SendMessage [] True,
               SendEvent (ai_indicator_update AI_STATE_THINKING),
               StartLlamaStream
                 (map to_context (filter has_text (slice_last 5 chan)) @
                  (if parent_id m \<noteq> None
                   then [\<lparr>role = ''user'', content = the (text m)\<rparr>] else []))]) \<and>
         length (filter has_text (slice_last 5 chan)) \<le> 5 \<and>
         (\<forall>x. has_text x \<longleftrightarrow> (\<exists>t. text x = Some t \<and> (\<exists>c \<in> set t. \<not> is_space c))) \<and>
         (\<forall>x. role (to_context x) = ''assistant'' \<longleftrightarrow> is_bot x) \<and>
         (\<forall>x. role (to_context x) = ''user'' \<longleftrightarrow> \<not> is_bot x)"
proof -
  have len: "length (filter has_text (slice_last 5 chan)) \<le> 5"
    by (rule le_trans [OF length_filter_le length_slice_last])
  have "(message e = None \<longrightarrow> LlamaAgent_handleMessage a chan now ok e = (a, [])) \<and>
      (\<forall>m. message e = Some m \<and> (ai_generated m \<or> \<not> truthy (text m)) \<longrightarrow>
         LlamaAgent_handleMessage a chan now ok e = (a, []) \<and>
         processMessageWithAgent ag e = []) \<and>
      (\<forall>m. message e = Some m \<and> \<not> ai_generated m \<and> truthy (text m) \<longrightarrow>
         take 3 (snd (LlamaAgent_handleMessage a chan now ok e)) =
           [SendMessage [] True,
            SendEvent (ai_indicator_update AI_STATE_THINKING),
            StartLlamaStream
              (map to_context (filter has_text (slice_last 5 chan)) @
               (if parent_id m \<noteq> None
                then [\<lparr>role = ''user'', content = the (text m)\<rparr>] else []))]) \<and>
      (\<forall>x. role (to_context x) = ''assistant'' \<longleftrightarrow> is_bot x) \<and>
      (\<forall>x. role (to_context x) = ''user'' \<longleftrightarrow> \<not> is_bot x)"
    using assms
    by (auto simp: LlamaAgent_handleMessage_def processMessageWithAgent_def Let_def to_context_def)
  with len has_text_iff show ?thesis by blast
qed

text \<open>
  Of the last five messages of this conversation one has a text of white space only
  and one has an empty text: the provider gets the other three.
\<close>

theorem handleMessage_context_witness:
  "truthy (apiEndpoint demo_llama_agent) \<and> truthy (modelName demo_llama_agent) \<and>
   message hello = Some (user_message ''alice'' ''hello'') \<and>
   take 3 (snd (LlamaAgent_handleMessage demo_llama_agent demo_chan_mixed 1 True hello)) =
     [SendMessage [] True,
      SendEvent (ai_indicator_update AI_STATE_THINKING),
      StartLlamaStream
        [\<lparr>role = ''assistant'', content = ''b''\<rparr>, \<lparr>role = ''assistant'', content = ''d''\<rparr>,
         \<lparr>role = ''user'', content = ''hello''\<rparr>]] \<and>
   \<not> has_text (user_message ''alice'' blank) \<and>
   has_text (user_message ''alice'' ''hello'')"
proof -
  note t = handleMessage_context [of demo_llama_agent hello demo_chan_mixed 1 True]
  have a: "truthy (apiEndpoint demo_llama_agent)" "truthy (modelName demo_llama_agent)"
    by (simp_all add: demo_llama_agent_def truthy_def)
  have sp: "is_space (CHR 0x20)" "is_space (CHR 0xA0)" "is_space (CHR 0x09)"
    by (simp_all add: is_space_def)
  have ns: "\<not> is_space CHR ''a''" "\<not> is_space CHR ''b''" "\<not> is_space CHR ''d''"
    "\<not> is_space CHR ''h''"
    by (simp_all add: is_space_def)
  have h: "has_text x \<longleftrightarrow> (\<exists>t. text x = Some t \<and> (\<exists>c \<in> set t. \<not> is_space c))" for x
    using t [OF a] by blast
  have kept: "has_text (user_message u ''a'')" "has_text (user_message u ''b'')"
    "has_text (user_message u ''d'')" "has_text (user_message u ''hello'')"
    and dropped: "\<not> has_text (user_message u blank)" "\<not> has_text (user_message u [])" for u
    using sp ns by (simp_all add: h user_message_def blank_def)
  have "take 3 (snd (LlamaAgent_handleMessage demo_llama_agent demo_chan_mixed 1 True hello)) =
      [SendMessage [] True,
       SendEvent (ai_indicator_update AI_STATE_THINKING),
       StartLlamaStream
         (map to_context (filter has_text (slice_last 5 demo_chan_mixed)) @
          (if parent_id (user_message ''alice'' ''hello'') \<noteq> None
           then [\<lparr>role = ''user'', content = the (text (user_message ''alice'' ''hello''))\<rparr>]
           else []))]"
    using t [OF a] by (simp add: hello_def user_message_def truthy_def)
  then show ?thesis
    using a kept dropped
    by (simp add: demo_chan_mixed_def slice_last_def hello_def)
       (simp add: user_message_def to_context_def is_bot_def startsWith_def or_default_def
         truthy_def)
qed

text \<open>
  The claim as stated fails, on two counts. First, the conversation \<open>demo_chan\<close>
  holds five messages with non-empty text (\<open>a\<close>, \<open>b\<close>, \<open>c\<close>, \<open>d\<close>, \<open>hello\<close>)
  and, before the last of them, one with empty text: the source cuts the last five
  messages first and filters then, so the provider is called with four, and \<open>a\<close>
  is not among them. Second, the conversation \<open>demo_chan_blank\<close> holds two messages
  with non-empty text, one of them of white space only: the source drops it, and the
  provider is called with one.
\<close>

theorem context_window_counterexample:
  "snd (LlamaAgent_handleMessage demo_llama_agent demo_chan 1 True hello) =
     [SendMessage [] True,
      SendEvent (ai_indicator_update AI_STATE_THINKING),
      StartLlamaStream
        [\<lparr>role = ''assistant'', content = ''b''\<rparr>, \<lparr>role = ''user'', content = ''c''\<rparr>,
         \<lparr>role = ''assistant'', content = ''d''\<rparr>, \<lparr>role = ''user'', content = ''hello''\<rparr>],
      RunHandler] \<and>
   map to_context (spec_context_window demo_chan) =
     [\<lparr>role = ''user'', content = ''a''\<rparr>,
      \<lparr>role = ''assistant'', content = ''b''\<rparr>, \<lparr>role = ''user'', content = ''c''\<rparr>,
      \<lparr>role = ''assistant'', content = ''d''\<rparr>, \<lparr>role = ''user'', content = ''hello''\<rparr>] \<and>
   snd (LlamaAgent_handleMessage demo_llama_agent demo_chan_blank 1 True hello) =
     [SendMessage [] True,
      SendEvent (ai_indicator_update AI_STATE_THINKING),
      StartLlamaStream [\<lparr>role = ''user'', content = ''hello''\<rparr>],
      RunHandler] \<and>
   map to_context (spec_context_window demo_chan_blank) =
     [\<lparr>role = ''user'', content = [CHR 0x20, CHR 0xA0, CHR 0x09]\<rparr>,
      \<lparr>role = ''user'', content = ''hello''\<rparr>]"
  by (simp add: LlamaAgent_handleMessage_def spec_context_window_def demo_llama_agent_def
      hello_def demo_chan_def demo_chan_blank_def blank_def user_message_def truthy_def
      slice_last_def has_text_def trim_def
      is_space_def to_context_def is_bot_def startsWith_def or_default_def)

section \<open>Properties of the registry\<close>

subsection \<open>Created, disposed and installed instances\<close>















subsection \<open>Start requests only\<close>











subsection \<open>Keys\<close>

lemma split_on_not_Nil: "split_on c s \<noteq> []"
  by (induction s) (auto split: list.splits)

lemma split_on_parts: "p \<in> set (split_on c s) \<Longrightarrow> c \<notin> set p"
proof (induction s arbitrary: p)
  case Nil
  then show ?case by simp
next
  case (Cons x xs)
  show ?case
  proof (cases "x = c")
    case True
    with Cons show ?thesis by auto
  next
    case False
    obtain q qs where q: "split_on c xs = q # qs"
      using split_on_not_Nil [of c xs] by (cases "split_on c xs") auto
    with False Cons.prems have "p = x # q \<or> p \<in> set qs" by simp
    then show ?thesis
    proof
      assume "p = x # q"
      moreover have "c \<notin> set q" using Cons.IH [of q] q by simp
      ultimately show ?thesis using False by simp
    next
      assume "p \<in> set qs"
      then show ?thesis using Cons.IH [of p] q by simp
    qed
  qed
qed

lemma split_on_length: "length (split_on c s) > 1 \<longleftrightarrow> c \<in> set s"
proof (induction s)
  case Nil
  then show ?case by simp
next
  case (Cons x xs)
  obtain q qs where q: "split_on c xs = q # qs"
    using split_on_not_Nil [of c xs] by (cases "split_on c xs") auto
  with Cons show ?case by auto
qed

lemma split_on_first:
  "split_on c s =
     takeWhile (\<lambda>x. x \<noteq> c) s #
       (if c \<in> set s then split_on c (tl (dropWhile (\<lambda>x. x \<noteq> c) s)) else [])"
proof (induction s)
  case Nil
  then show ?case by simp
next
  case (Cons x xs)
  then show ?case by (cases "x = c") auto
qed

lemma split_on_second:
  assumes "c \<in> set s"
  shows "split_on c s ! 1 = takeWhile (\<lambda>x. x \<noteq> c) (tl (dropWhile (\<lambda>x. x \<noteq> c) s))"
proof -
  let ?r = "tl (dropWhile (\<lambda>x. x \<noteq> c) s)"
  have "split_on c s = takeWhile (\<lambda>x. x \<noteq> c) s # split_on c ?r"
    using split_on_first [of c s] assms by simp
  then have "split_on c s ! 1 = hd (split_on c ?r)"
    using split_on_not_Nil [of c ?r] by (cases "split_on c ?r") simp_all
  also have "\<dots> = takeWhile (\<lambda>x. x \<noteq> c) ?r"
    using split_on_first [of c ?r] by (metis list.sel(1))
  finally show ?thesis .
qed

lemma channel_id_updated_parts:
  assumes "CHR '':'' \<in> set c"
  shows "channel_id_updated c = split_on CHR '':'' c ! 1"
proof -
  have "1 < length (split_on CHR '':'' c)"
    using assms by (simp only: split_on_length)
  then show ?thesis
    using assms by (simp only: channel_id_updated_def Let_def if_True)
qed

lemma channel_id_updated_colon:
  "CHR '':'' \<in> set c \<Longrightarrow>
   channel_id_updated c =
     takeWhile (\<lambda>x. x \<noteq> CHR '':'') (tl (dropWhile (\<lambda>x. x \<noteq> CHR '':'') c))"
  by (simp only: channel_id_updated_parts split_on_second)

lemma channel_id_updated_no_colon: "CHR '':'' \<notin> set (channel_id_updated c)"
proof (cases "CHR '':'' \<in> set c")
  case True
  then have "1 < length (split_on CHR '':'' c)"
    by (simp only: split_on_length)
  then have "split_on CHR '':'' c ! 1 \<in> set (split_on CHR '':'' c)"
    by (rule nth_mem)
  then have "channel_id_updated c \<in> set (split_on CHR '':'' c)"
    using True by (simp only: channel_id_updated_parts)
  then show ?thesis by (rule split_on_parts)
next
  case False
  then show ?thesis by (simp add: channel_id_updated_def)
qed

lemma start_user_id_no_colon: "CHR '':'' \<notin> set (start_user_id c)"
  using channel_id_updated_no_colon [of c] by (simp add: start_user_id_def strip_bang_def)

lemma userId_colon: "CHR '':'' \<in> set c \<Longrightarrow> CHR '':'' \<in> set (userId c)"
  by (simp add: userId_def strip_bang_def)

lemma inv_keys_init: "inv_keys init_server"
  by (simp add: inv_keys_def init_server_def)

lemma inv_keys_step:
  assumes "inv_keys s"
  shows "inv_keys (step s ev)"
proof (cases ev)
  case (Arrive t c)
  have "inv_keys (arrive s t c)"
    using assms start_user_id_no_colon [of c]
    by (auto simp: inv_keys_def arrive_def finish_def Let_def)
  then show ?thesis
    using Arrive assms by (cases "phase s t") simp_all
next
  case (AgentCreated t)
  have "inv_keys (agent_created s t k)" if "phase s t = InFlight k" for k
    using assms that by (auto simp: inv_keys_def agent_created_def)
  then show ?thesis
    using AgentCreated assms by (cases "phase s t") simp_all
next
  case (Resume t r)
  have fin: "inv_keys (finish s t k c)" for k c
    using assms by (auto simp: inv_keys_def finish_def)
  have ini: "inv_keys (resume_initialising s' t k r)"
    if "inv_keys s'" "CHR '':'' \<notin> set k" for s' k
    using that
    by (cases r) (auto simp: inv_keys_def resume_initialising_def finish_def)
  have "inv_keys (resume_in_flight s t k r)" if "phase s t = InFlight k" for k
  proof -
    from assms that have k: "CHR '':'' \<notin> set k" by (auto simp: inv_keys_def)
    have "inv_keys (agent_created s t k)"
      using assms that by (auto simp: inv_keys_def agent_created_def)
    from ini [OF this k] fin show ?thesis
      by (cases r) (simp_all add: resume_in_flight_def)
  qed
  moreover have "inv_keys (resume_initialising s t k r)" if "phase s t = Initialising k" for k
  proof -
    from assms that have "CHR '':'' \<notin> set k" by (auto simp: inv_keys_def)
    with assms show ?thesis by (rule ini)
  qed
  ultimately show ?thesis
    using Resume assms fin by (cases "phase s t") simp_all
next
  case (StopReq c)
  then show ?thesis
    using assms by (auto simp: inv_keys_def stop_ai_agent_def evict_def split: option.splits)
next
  case (Sweep k)
  then show ?thesis
    using assms by (auto simp: inv_keys_def evict_def split: option.splits)
next
  case (ResumeEvict k r)
  then show ?thesis
    using assms
    by (cases r) (auto simp: inv_keys_def resume_evict_def Let_def)
qed

lemma inv_keys_run: "inv_keys s \<Longrightarrow> inv_keys (run rs s)"
  by (induction rs arbitrary: s) (simp_all add: run_def inv_keys_step)



subsection \<open>One instance for each conversation\<close>





text \<open>
  Stops that overlap are not start requests, and there the created and not disposed
  instances need not be in the cache: the second of two stops that both found agent
  0 ends its disposal after a new start has installed agent 1, and deletes that
  entry; a further start installs agent 2, with agent 1 never disposed.
\<close>

lemma overlapping_stops_leave_two:
  "aiAgentCache (run overlapping_stops init_server) ''ai-bot-demo-channel'' = Some 2 \<and>
   created (run overlapping_stops init_server) 1 = Some ''ai-bot-demo-channel'' \<and>
   created (run overlapping_stops init_server) 2 = Some ''ai-bot-demo-channel'' \<and>
   disposed (run overlapping_stops init_server) = {0}"
  by (simp add: overlapping_stops_def run_def init_server_def arrive_def resume_in_flight_def
      resume_initialising_def agent_created_def stop_ai_agent_def evict_def resume_evict_def
      userId_def
      finish_def start_user_id_def channel_id_updated_def strip_bang_def Let_def)

subsection \<open>Start and stop of a channel id with a colon\<close>

text \<open>
  C10. For a channel id that contains a colon, the start endpoint makes its key
  from the segment after the first colon, with every \<open>!\<close> removed, and the stop,
  switch-model and active-model endpoints make theirs from the whole id, with every
  \<open>!\<close> removed: the two keys differ. In every state the server reaches, the cache
  holds nothing under the second key: a stop request with this id leaves the server
  as it is, and switch-model and active-model answer 404. So when a start with this
  id has installed its agent, a stop with the same id leaves that agent installed.
\<close>

theorem stop_misses_started_agent:
  assumes "CHR '':'' \<in> set channel_id"
  shows "start_user_id channel_id =
           ''ai-bot-'' @ strip_bang (takeWhile (\<lambda>x. x \<noteq> CHR '':'')
              (tl (dropWhile (\<lambda>x. x \<noteq> CHR '':'') channel_id))) \<and>
         userId channel_id = ''ai-bot-'' @ strip_bang channel_id \<and>
         start_user_id channel_id \<noteq> userId channel_id \<and>
         aiAgentCache (run rs init_server) (userId channel_id) = None \<and>
         step (run rs init_server) (StopReq channel_id) = run rs init_server \<and>
         (platform \<noteq> [] \<longrightarrow> switch_model (run rs init_server) multi channel_id platform = 404) \<and>
         active_model (run rs init_server) channel_id = 404 \<and>
         (phase (run rs init_server) t = NotArrived \<and>
          aiAgentCache (run rs init_server) (start_user_id channel_id) = None \<and>
          start_user_id channel_id \<notin> pendingAiAgents (run rs init_server) \<longrightarrow>
            aiAgentCache
              (run (rs @ [Arrive t channel_id, Resume t Ok, StopReq channel_id]) init_server)
              (start_user_id channel_id) = Some t)"
proof -
  let ?s = "run rs init_server"
  let ?k = "start_user_id channel_id"
  have ne: "channel_id \<noteq> []" using assms by auto
  have diff: "?k \<noteq> userId channel_id"
    using start_user_id_no_colon [of channel_id] userId_colon [OF assms] by auto
  have miss: "aiAgentCache s' (userId channel_id) = None" if "inv_keys s'" for s'
    using that userId_colon [OF assms] unfolding inv_keys_def by blast
  have inv: "inv_keys (run xs init_server)" for xs
    by (rule inv_keys_run [OF inv_keys_init])
  have m0: "aiAgentCache ?s (userId channel_id) = None"
    by (rule miss [OF inv])
  have stop: "step s' (StopReq channel_id) = s'" if "inv_keys s'" for s'
    using miss [OF that] by (simp add: stop_ai_agent_def evict_def)
  have seq: "aiAgentCache (run (rs @ [Arrive t channel_id, Resume t Ok, StopReq channel_id])
        init_server) ?k = Some t"
    if "phase ?s t = NotArrived" "aiAgentCache ?s ?k = None" "?k \<notin> pendingAiAgents ?s"
  proof -
    have "run (rs @ [Arrive t channel_id, Resume t Ok, StopReq channel_id]) init_server =
        step (run (rs @ [Arrive t channel_id, Resume t Ok]) init_server) (StopReq channel_id)"
      by (simp add: run_def)
    also have "\<dots> = run (rs @ [Arrive t channel_id, Resume t Ok]) init_server"
      by (rule stop [OF inv])
    also have "\<dots> = step (step ?s (Arrive t channel_id)) (Resume t Ok)"
      by (simp add: run_def)
    finally show ?thesis
      using that ne
      by (simp add: arrive_def resume_in_flight_def resume_initialising_def agent_created_def
          finish_def Let_def)
  qed
  show ?thesis
    using diff m0 stop [OF inv] seq ne channel_id_updated_colon [OF assms]
    by (simp add: switch_model_def active_model_def start_user_id_def userId_def)
qed

theorem stop_misses_started_agent_witness:
  "CHR '':'' \<in> set ''messaging:demo-channel'' \<and>
   start_user_id ''messaging:demo-channel'' = ''ai-bot-demo-channel'' \<and>
   userId ''messaging:demo-channel'' = ''ai-bot-messaging:demo-channel'' \<and>
   aiAgentCache
     (run [Arrive 0 ''messaging:demo-channel'', Resume 0 Ok, StopReq ''messaging:demo-channel'']
        init_server)
     ''ai-bot-demo-channel'' = Some 0 \<and>
   active_model
     (run [Arrive 0 ''messaging:demo-channel'', Resume 0 Ok] init_server)
     ''messaging:demo-channel'' = 404"
proof -
  have c: "CHR '':'' \<in> set ''messaging:demo-channel''" by simp
  have k: "start_user_id ''messaging:demo-channel'' = ''ai-bot-demo-channel''"
    by (simp add: start_user_id_def channel_id_updated_def strip_bang_def)
  have e: "run [] init_server = init_server" by (simp add: run_def)
  note t = stop_misses_started_agent [OF c]
  have "phase (run [] init_server) 0 = NotArrived \<and>
      aiAgentCache (run [] init_server) (start_user_id ''messaging:demo-channel'') = None \<and>
      start_user_id ''messaging:demo-channel'' \<notin> pendingAiAgents (run [] init_server) \<longrightarrow>
      aiAgentCache
        (run ([] @ [Arrive 0 ''messaging:demo-channel'', Resume 0 Ok,
                    StopReq ''messaging:demo-channel'']) init_server)
        (start_user_id ''messaging:demo-channel'') = Some 0"
    using t [of "[]" _ _ 0] by blast
  moreover have "phase (run [] init_server) 0 = NotArrived \<and>
      aiAgentCache (run [] init_server) (start_user_id ''messaging:demo-channel'') = None \<and>
      start_user_id ''messaging:demo-channel'' \<notin> pendingAiAgents (run [] init_server)"
    by (simp add: e) (simp add: init_server_def)
  ultimately have "aiAgentCache
      (run ([] @ [Arrive 0 ''messaging:demo-channel'', Resume 0 Ok,
                  StopReq ''messaging:demo-channel'']) init_server)
      (start_user_id ''messaging:demo-channel'') = Some 0"
    by blast
  then have "aiAgentCache
      (run [Arrive 0 ''messaging:demo-channel'', Resume 0 Ok,
            StopReq ''messaging:demo-channel''] init_server)
      ''ai-bot-demo-channel'' = Some 0"
    by (simp only: k append_Nil)
  moreover have "active_model
      (run [Arrive 0 ''messaging:demo-channel'', Resume 0 Ok] init_server)
      ''messaging:demo-channel'' = 404"
    using t [of "[Arrive 0 ''messaging:demo-channel'', Resume 0 Ok]"] by blast
  ultimately show ?thesis
    using c k by (simp add: userId_def strip_bang_def)
qed

end
